theory Spec2Isabelle
  imports Main "HOL-Library.Sublist"
begin

section \<open>Python strings\<close>

text \<open>
  A Python \<open>str\<close> is modelled as a \<open>string\<close>, one \<open>char\<close> per code point. The
  model covers ASCII text: \<open>str.lower()\<close> maps \<open>A\<close>..\<open>Z\<close> to \<open>a\<close>..\<open>z\<close> and leaves
  every other ASCII character alone, which is what \<open>lower_char\<close> does. Characters
  outside ASCII are left unchanged by the model and are not claimed to follow Python.
\<close>

definition lower_char :: "char \<Rightarrow> char" where
  "lower_char c =
     (case map_of (zip ''ABCDEFGHIJKLMNOPQRSTUVWXYZ'' ''abcdefghijklmnopqrstuvwxyz'') c of
        Some l \<Rightarrow> l
      | None \<Rightarrow> c)"

definition str_lower :: "string \<Rightarrow> string" where
  "str_lower s = map lower_char s"

text \<open>
  \<open>pattern in s\<close>: the pattern occurs in \<open>s\<close> as a contiguous run, tried at every
  start position from the left.
\<close>

fun str_contains :: "string \<Rightarrow> string \<Rightarrow> bool" where
  "str_contains p [] = (p = [])"
| "str_contains p (c # cs) = (prefix p (c # cs) \<or> str_contains p cs)"

section \<open>The query interpreter: \<open>parse_temporal_query\<close>\<close>

text \<open>
  The function returns \<open>{"hours_ago": hours, "is_temporal": True}\<close> or
  \<open>{"is_temporal": False}\<close>: a value with two shapes.
\<close>

datatype temporal_info = Temporal (hours_ago: int) | NonTemporal

text \<open>
  The dict literal \<open>temporal_patterns\<close>. A Python dict iterates in insertion order, so
  \<open>.items()\<close> is this association list.
\<close>

definition temporal_patterns :: "(string \<times> int) list" where
  "temporal_patterns =
     [(''yesterday'', 24),
      (''last hour'', 1),
      (''past hour'', 1),
      (''last 2 hours'', 2),
      (''last few hours'', 3),
      (''today'', 24),
      (''last 24 hours'', 24),
      (''this morning'', 12)]"

text \<open>The \<open>for pattern, hours in ....items()\<close> loop, returning at the first hit.\<close>

fun scan_patterns :: "(string \<times> int) list \<Rightarrow> string \<Rightarrow> temporal_info" where
  "scan_patterns [] message_lower = NonTemporal"
| "scan_patterns ((pattern, hours) # rest) message_lower =
     (if str_contains pattern message_lower then Temporal hours
      else scan_patterns rest message_lower)"

definition parse_temporal_query :: "string \<Rightarrow> temporal_info" where
  "parse_temporal_query message = scan_patterns temporal_patterns (str_lower message)"

section \<open>More of Python's \<open>str\<close>\<close>

text \<open>\<open>s.endswith(suffix)\<close>, computed from the right ends.\<close>

definition str_endswith :: "string \<Rightarrow> string \<Rightarrow> bool" where
  "str_endswith s sfx = prefix (rev sfx) (rev s)"

text \<open>
  \<open>s.replace(old, new)\<close>: every occurrence of \<open>old\<close>, found from the left and not
  overlapping the one before, becomes \<open>new\<close>. With an empty \<open>old\<close> Python puts \<open>new\<close>
  before every character and at the end.
\<close>

function str_replace :: "string \<Rightarrow> string \<Rightarrow> string \<Rightarrow> string" where
  "str_replace old new [] = (if old = [] then new else [])"
| "str_replace old new (c # cs) =
     (if old = [] then new @ c # str_replace old new cs
      else if prefix old (c # cs)
        then new @ str_replace old new (drop (length old) (c # cs))
      else c # str_replace old new cs)"
  by pat_completeness auto
termination
  by (relation "measure (\<lambda>(old, new, s). length s)") auto

definition upper_char :: "char \<Rightarrow> char" where
  "upper_char c =
     (case map_of (zip ''abcdefghijklmnopqrstuvwxyz'' ''ABCDEFGHIJKLMNOPQRSTUVWXYZ'') c of
        Some u \<Rightarrow> u
      | None \<Rightarrow> c)"

definition is_cased :: "char \<Rightarrow> bool" where
  "is_cased c \<longleftrightarrow>
     c \<in> set ''abcdefghijklmnopqrstuvwxyzABCDEFGHIJKLMNOPQRSTUVWXYZ''"

text \<open>
  \<open>s.title()\<close>: a character after a cased character is lowercased, any other is
  uppercased (for ASCII the titlecase of a letter is its uppercase).
\<close>

fun title_from :: "bool \<Rightarrow> string \<Rightarrow> string" where
  "title_from previous_is_cased [] = []"
| "title_from previous_is_cased (c # cs) =
     (if previous_is_cased then lower_char c else upper_char c) # title_from (is_cased c) cs"

definition str_title :: "string \<Rightarrow> string" where
  "str_title s = title_from False s"

text \<open>\<open>sep.join(parts)\<close>.\<close>

fun str_join :: "string \<Rightarrow> string list \<Rightarrow> string" where
  "str_join sep [] = []"
| "str_join sep [x] = x"
| "str_join sep (x # y # ys) = x @ sep @ str_join sep (y # ys)"

text \<open>The decimal text of an integer, as an f-string inserts it.\<close>

fun str_nat :: "nat \<Rightarrow> string" where
  "str_nat n =
     (if n < 10 then [''0123456789'' ! n]
      else str_nat (n div 10) @ [''0123456789'' ! (n mod 10)])"

declare str_nat.simps [simp del]

definition str_int :: "int \<Rightarrow> string" where
  "str_int i = (if i < 0 then ''-'' @ str_nat (nat (- i)) else str_nat (nat i))"

section \<open>Exceptions and the module's state\<close>

text \<open>
  An exception raised by a collaborator is modelled by its text \<open>str(e)\<close>, the only
  thing the routes read from it. An \<open>HTTPException\<close> carries a status and a detail.
\<close>

type_synonym exn = string

datatype http_exception = HTTPException (status_code: int) (detail: string)

text \<open>
  \<open>chat_history_manager\<close> is one module-level object; of its attributes the routes
  read and write \<open>max_history\<close>. It is created with \<open>max_history=30\<close>.
\<close>

record ChatHistoryManager =
  max_history :: int

definition chat_history_manager :: ChatHistoryManager where
  "chat_history_manager = \<lparr>max_history = 30\<rparr>"

section \<open>The settings routes\<close>

text \<open>
  \<open>update_history_settings\<close> returns its JSON body (message, max_history) or raises;
  the manager is passed in and returned. The \<open>except HTTPException: raise\<close> clause
  lets the 400 through unchanged.
\<close>

definition update_history_settings ::
  "int \<Rightarrow> ChatHistoryManager \<Rightarrow> (http_exception + string \<times> int) \<times> ChatHistoryManager" where
  "update_history_settings new_max_history mgr =
     (if new_max_history < 1 \<or> new_max_history > 100
      then (Inl (HTTPException 400 ''max_history must be between 1 and 100''), mgr)
      else (Inr (''Chat history settings updated'', new_max_history),
            mgr\<lparr>max_history := new_max_history\<rparr>))"

text \<open>\<open>get_history_settings\<close> returns (max_history, persist_directory).\<close>

definition get_history_settings ::
  "ChatHistoryManager \<Rightarrow> http_exception + int \<times> string" where
  "get_history_settings mgr = Inr (max_history mgr, ''./vector_db'')"

section \<open>Listing the games: \<open>list_games_with_history\<close>\<close>

text \<open>
  The store's \<open>list_collections()\<close> and the manager's \<open>get_stats\<close> are collaborators
  whose code is elsewhere; both are parameters here and either may raise. A collection
  is given by its name. The stats dict is read at one key, \<open>total_messages\<close>, so it is
  an association list from keys to integers.
\<close>

type_synonym stats = "(string \<times> int) list"

datatype game_entry =
  GameEntry (entry_game: string) (entry_collection_name: string) (entry_total_messages: int)

text \<open>
  \<open>collection.name.replace("_chat_history", "").replace("_", " ").title()\<close>
\<close>

definition game_name_of :: "string \<Rightarrow> string" where
  "game_name_of name =
     str_title (str_replace ''_'' '' '' (str_replace ''_chat_history'' '''' name))"

text \<open>\<open>stats.get("total_messages", 0)\<close>\<close>

definition stats_total_messages :: "stats \<Rightarrow> int" where
  "stats_total_messages st =
     (case map_of st ''total_messages'' of Some n \<Rightarrow> n | None \<Rightarrow> 0)"

text \<open>
  The loop over the collections. An exception from \<open>get_stats\<close> ends it at once; the
  entries come out in the order of the collections.
\<close>

fun collect_games :: "(string \<Rightarrow> exn + stats) \<Rightarrow> string list \<Rightarrow> exn + game_entry list" where
  "collect_games get_stats [] = Inr []"
| "collect_games get_stats (name # collections) =
     (if str_endswith name ''_chat_history''
      then (case get_stats (game_name_of name) of
              Inl e \<Rightarrow> Inl e
            | Inr st \<Rightarrow>
               (case collect_games get_stats collections of
                  Inl e \<Rightarrow> Inl e
                | Inr games_with_history \<Rightarrow>
                    Inr (GameEntry (game_name_of name) name (stats_total_messages st)
                         # games_with_history)))
      else collect_games get_stats collections)"

text \<open>The route returns (games, total_games), or a 500 carrying the exception's text.\<close>

definition list_games_with_history ::
  "(exn + string list) \<Rightarrow> (string \<Rightarrow> exn + stats) \<Rightarrow> http_exception + game_entry list \<times> int" where
  "list_games_with_history list_collections get_stats =
     (case list_collections of
        Inl e \<Rightarrow> Inl (HTTPException 500 e)
      | Inr collections \<Rightarrow>
         (case collect_games get_stats collections of
            Inl e \<Rightarrow> Inl (HTTPException 500 e)
          | Inr games_with_history \<Rightarrow>
              Inr (games_with_history, int (length games_with_history))))"

section \<open>The chat route\<close>

text \<open>
  The request object. \<open>message\<close> and \<open>image_data\<close> are read as attributes; \<open>game\<close>,
  \<open>include_history\<close> and \<open>history_limit\<close> are read with \<open>getattr(message, name,
  default)\<close>, so each of these is optional: \<open>None\<close> is an object that does not carry
  the attribute.
\<close>

record ChatMessage =
  message :: string
  image_data :: "string option"
  game_attr :: "string option"
  include_history_attr :: "bool option"
  history_limit_attr :: "int option"

text \<open>One dict of the list \<open>get_recent_history\<close> returns, read at three keys.\<close>

record history_msg =
  msg_timestamp :: string
  msg_user_message :: string
  msg_assistant_response :: string

text \<open>
  What \<open>chat_with_gemini\<close> returns: a dict (here with text values) or something else,
  of which only \<open>str(response)\<close> is read.
\<close>

datatype gemini_response = DictResponse "(string \<times> string) list" | OtherResponse string

text \<open>
  The collaborators of a request, each a function of the arguments the route passes,
  each able to raise:
  \<^item> \<open>get_recent_history(game=, hours_ago=)\<close>, \<open>get_history_context(game=, limit=)\<close> and
    \<open>add_message(game=, user_message=, assistant_response=)\<close> of the history manager;
    \<open>get_history_context\<close> may return \<open>None\<close>;
  \<^item> \<open>chat_with_gemini(enhanced_message, image_data)\<close>, the outbound model call;
  \<^item> \<open>format_time\<close>: \<open>datetime.fromisoformat(ts).strftime("%H:%M")\<close>, which raises on
    text that is no ISO timestamp;
  \<^item> \<open>str_of_response\<close>: Python's \<open>str(response)\<close>.
\<close>

record collaborators =
  get_recent_history :: "string \<Rightarrow> int \<Rightarrow> exn + history_msg list"
  get_history_context :: "string \<Rightarrow> int \<Rightarrow> exn + string option"
  add_message :: "string \<Rightarrow> string \<Rightarrow> string \<Rightarrow> exn + unit"
  chat_with_gemini :: "string \<Rightarrow> string option \<Rightarrow> exn + gemini_response"
  format_time :: "string \<Rightarrow> exn + string"
  str_of_response :: "gemini_response \<Rightarrow> string"

text \<open>
  The effects of a request are the calls it makes on the manager and on the model, in
  order, each with its arguments.
\<close>

datatype call =
  GetRecentHistory string int
| GetHistoryContext string int
| ChatWithGemini string "string option"
| AddMessage string string string

text \<open>What the route returns: the temporal dict (response, game), or the model's response.\<close>

datatype chat_reply = TemporalReply string string | GeminiReply gemini_response

text \<open>\<open>getattr(message, 'game', 'general')\<close> and the two other defaults.\<close>

definition request_game :: "ChatMessage \<Rightarrow> string" where
  "request_game msg = (case game_attr msg of None \<Rightarrow> ''general'' | Some g \<Rightarrow> g)"

definition request_include_history :: "ChatMessage \<Rightarrow> bool" where
  "request_include_history msg = (case include_history_attr msg of None \<Rightarrow> True | Some b \<Rightarrow> b)"

definition request_history_limit :: "ChatMessage \<Rightarrow> int" where
  "request_history_limit msg = (case history_limit_attr msg of None \<Rightarrow> 5 | Some n \<Rightarrow> n)"

text \<open>The reply when the window holds no record.\<close>

definition no_history_reply :: "int \<Rightarrow> string \<Rightarrow> string" where
  "no_history_reply hours game =
     ''I don't have any conversation history from the last '' @ str_int hours
       @ '' hours for '' @ game @ ''.''"

text \<open>
  The loop that formats the window: three lines for each record, the response cut
  to its first 100 characters. A timestamp that does not parse raises.
\<close>

fun history_summary :: "(string \<Rightarrow> exn + string) \<Rightarrow> history_msg list \<Rightarrow> exn + string list" where
  "history_summary fmt [] = Inr []"
| "history_summary fmt (msg # history) =
     (case fmt (msg_timestamp msg) of
        Inl e \<Rightarrow> Inl e
      | Inr time_str \<Rightarrow>
         (case history_summary fmt history of
            Inl e \<Rightarrow> Inl e
          | Inr lines \<Rightarrow>
              Inr ([''At '' @ time_str @ '':'',
                    ''  You: '' @ msg_user_message msg,
                    ''  Me: '' @ take 100 (msg_assistant_response msg) @ ''...'']
                   @ lines)))"

definition temporal_response_text ::
  "collaborators \<Rightarrow> int \<Rightarrow> string \<Rightarrow> history_msg list \<Rightarrow> exn + string" where
  "temporal_response_text env hours game history =
     (if history = [] then Inr (no_history_reply hours game)
      else (case history_summary (format_time env) history of
              Inl e \<Rightarrow> Inl e
            | Inr lines \<Rightarrow> Inr (str_join [CHR 0x0A] lines)))"

text \<open>Step 2 of the route, taken when the message is a temporal query.\<close>

definition chat_temporal ::
  "collaborators \<Rightarrow> string \<Rightarrow> string \<Rightarrow> int \<Rightarrow> call list \<times> (exn + chat_reply)" where
  "chat_temporal env game user_message hours =
     (case get_recent_history env game hours of
        Inl e \<Rightarrow> ([GetRecentHistory game hours], Inl e)
      | Inr history \<Rightarrow>
         (case temporal_response_text env hours game history of
            Inl e \<Rightarrow> ([GetRecentHistory game hours], Inl e)
          | Inr response_text \<Rightarrow>
             (case add_message env game user_message response_text of
                Inl e \<Rightarrow>
                  ([GetRecentHistory game hours, AddMessage game user_message response_text],
                   Inl e)
              | Inr u \<Rightarrow>
                  ([GetRecentHistory game hours, AddMessage game user_message response_text],
                   Inr (TemporalReply response_text game)))))"

text \<open>
  Step 3: the message for the model. \<open>if history_context:\<close> is false for \<open>None\<close> and
  for the empty string.
\<close>

definition enhance_message :: "string option \<Rightarrow> string \<Rightarrow> string" where
  "enhance_message history_context user_message =
     (case history_context of
        None \<Rightarrow> user_message
      | Some ctx \<Rightarrow>
          if ctx = [] then user_message
          else ctx @ [CHR 0x0A, CHR 0x0A] @ ''---'' @ [CHR 0x0A, CHR 0x0A]
                 @ ''Current question: '' @ user_message)"

text \<open>The response text that is stored: the dict's \<open>response\<close> entry, else \<open>str(response)\<close>.\<close>

definition response_text_of :: "collaborators \<Rightarrow> gemini_response \<Rightarrow> string" where
  "response_text_of env response =
     (case response of
        DictResponse d \<Rightarrow>
          (case map_of d ''response'' of
             Some t \<Rightarrow> t
           | None \<Rightarrow> str_of_response env response)
      | OtherResponse t \<Rightarrow> str_of_response env response)"

text \<open>Steps 4 to 6: the model call, the stored exchange, the reply.\<close>

definition chat_call_model ::
  "collaborators \<Rightarrow> string \<Rightarrow> string \<Rightarrow> string \<Rightarrow> string option
     \<Rightarrow> call list \<times> (exn + chat_reply)" where
  "chat_call_model env game user_message enhanced_message img =
     (case chat_with_gemini env enhanced_message img of
        Inl e \<Rightarrow> ([ChatWithGemini enhanced_message img], Inl e)
      | Inr response \<Rightarrow>
         (case add_message env game user_message (response_text_of env response) of
            Inl e \<Rightarrow>
              ([ChatWithGemini enhanced_message img,
                AddMessage game user_message (response_text_of env response)],
               Inl e)
          | Inr u \<Rightarrow>
              ([ChatWithGemini enhanced_message img,
                AddMessage game user_message (response_text_of env response)],
               Inr (GeminiReply response))))"

text \<open>Steps 3 to 6, taken when the message is no temporal query.\<close>

definition chat_plain ::
  "collaborators \<Rightarrow> ChatMessage \<Rightarrow> string \<Rightarrow> string \<Rightarrow> call list \<times> (exn + chat_reply)" where
  "chat_plain env msg game user_message =
     (if request_include_history msg
      then (case get_history_context env game (request_history_limit msg) of
              Inl e \<Rightarrow> ([GetHistoryContext game (request_history_limit msg)], Inl e)
            | Inr history_context \<Rightarrow>
               (let r = chat_call_model env game user_message
                          (enhance_message history_context user_message) (image_data msg)
                in (GetHistoryContext game (request_history_limit msg) # fst r, snd r)))
      else chat_call_model env game user_message user_message (image_data msg))"

text \<open>
  The route: the calls it made, and its reply or the \<open>HTTPException\<close> its
  \<open>except Exception\<close> clause raises.
\<close>

definition chat :: "collaborators \<Rightarrow> ChatMessage \<Rightarrow> call list \<times> (http_exception + chat_reply)" where
  "chat env msg =
     (let game = request_game msg;
          user_message = message msg;
          r = (case parse_temporal_query user_message of
                 Temporal hours \<Rightarrow> chat_temporal env game user_message hours
               | NonTemporal \<Rightarrow> chat_plain env msg game user_message)
      in (fst r,
          case snd r of
            Inl e \<Rightarrow> Inl (HTTPException 500 (''Chat error: '' @ e))
          | Inr reply \<Rightarrow> Inr reply))"

text \<open>Reading a trace: the texts sent to the model, the exchanges stored, the game of a call.\<close>

fun sent_to_model :: "call list \<Rightarrow> string list" where
  "sent_to_model [] = []"
| "sent_to_model (ChatWithGemini m i # cs) = m # sent_to_model cs"
| "sent_to_model (c # cs) = sent_to_model cs"


fun call_game :: "call \<Rightarrow> string option" where
  "call_game (GetRecentHistory g h) = Some g"
| "call_game (GetHistoryContext g l) = Some g"
| "call_game (ChatWithGemini m i) = None"
| "call_game (AddMessage g u a) = Some g"

section \<open>The history of a scope\<close>




section \<open>Example collaborators and requests\<close>

text \<open>
  A manager that holds one exchange for the game \<open>minecraft\<close> and nothing for any
  other game, a model that answers with a dict, and timestamps in ISO form, of which
  \<open>%H:%M\<close> is characters 11 to 15.
\<close>

definition demo_collaborators :: collaborators where
  "demo_collaborators =
     \<lparr>get_recent_history = (\<lambda>game hours.
          if game = ''minecraft''
          then Inr [\<lparr>msg_timestamp = ''2025-01-05T09:30:00'',
                     msg_user_message = ''Where are diamonds?'',
                     msg_assistant_response = ''Deep underground.''\<rparr>]
          else Inr []),
      get_history_context = (\<lambda>game limit.
          if game = ''minecraft'' then Inr (Some ''User: Where are diamonds?'')
          else Inr None),
      add_message = (\<lambda>game user_message assistant_response. Inr ()),
      chat_with_gemini = (\<lambda>enhanced_message img.
          Inr (DictResponse [(''response'', ''Use an iron pickaxe.'')])),
      format_time = (\<lambda>ts. Inr (take 5 (drop 11 ts))),
      str_of_response = (\<lambda>response. ''{}'')\<rparr>"

definition demo_question :: ChatMessage where
  "demo_question =
     \<lparr>message = ''How do I mine them?'', image_data = None,
      game_attr = Some ''minecraft'', include_history_attr = None,
      history_limit_attr = None\<rparr>"

definition demo_question_no_game :: ChatMessage where
  "demo_question_no_game =
     \<lparr>message = ''How do I mine them?'', image_data = None,
      game_attr = None, include_history_attr = None,
      history_limit_attr = None\<rparr>"

definition demo_question_no_history :: ChatMessage where
  "demo_question_no_history =
     \<lparr>message = ''How do I mine them?'', image_data = None,
      game_attr = Some ''minecraft'', include_history_attr = Some False,
      history_limit_attr = None\<rparr>"


definition demo_temporal_no_game :: ChatMessage where
  "demo_temporal_no_game =
     \<lparr>message = ''What did I ask Yesterday?'', image_data = None,
      game_attr = None, include_history_attr = None,
      history_limit_attr = None\<rparr>"

text \<open>
  Two managers for the listing: one whose games all hold no record, and one that
  holds four records for \<open>Elden Ring\<close> and answers with a dict without the
  \<open>total_messages\<close> key for any other game.
\<close>

definition demo_get_stats_empty :: "string \<Rightarrow> exn + stats" where
  "demo_get_stats_empty game = Inr [(''total_messages'', 0)]"

definition demo_get_stats :: "string \<Rightarrow> exn + stats" where
  "demo_get_stats game =
     (if game = ''Elden Ring'' then Inr [(''total_messages'', 4)] else Inr [])"



section \<open>Substring test and loop: basic facts\<close>

lemma str_contains_sublist: "str_contains p s \<longleftrightarrow> sublist p s"
  by (induction s) (simp_all add: sublist_Cons_right)

lemma scan_patterns_find:
  "scan_patterns tbl s =
     (case find (\<lambda>(p, h). sublist p s) tbl of
        None \<Rightarrow> NonTemporal
      | Some (p, h) \<Rightarrow> Temporal h)"
  by (induction tbl s rule: scan_patterns.induct) (simp_all add: str_contains_sublist)

lemma scan_patterns_first:
  assumes "sublist p s" and "\<forall>q \<in> set (map fst pre). \<not> sublist q s"
  shows "scan_patterns (pre @ (p, h) # post) s = Temporal h"
  using assms by (induction pre) (auto simp: str_contains_sublist)

lemma scan_patterns_none:
  "\<forall>q \<in> set (map fst tbl). \<not> sublist q s \<Longrightarrow> scan_patterns tbl s = NonTemporal"
  by (induction tbl) (auto simp: str_contains_sublist)

section \<open>Claims about the query interpreter\<close>

text \<open>
  C3. Every message is classified by looking for the table's phrases in the lowercased
  message, a phrase matching exactly when it is a contiguous sublist of the lowercased
  text; the result is the window listed beside the phrase that is the match:
  yesterday 24, last hour 1, past hour 1, last 2 hours 2, last few hours 3, today 24,
  last 24 hours 24, this morning 12; with no match the message is non-temporal.
\<close>

theorem parse_temporal_query_table:
  "parse_temporal_query m =
     (case find (\<lambda>(p, h). sublist p (str_lower m))
             [(''yesterday'', 24), (''last hour'', 1), (''past hour'', 1),
              (''last 2 hours'', 2), (''last few hours'', 3), (''today'', 24),
              (''last 24 hours'', 24), (''this morning'', 12)] of
        None \<Rightarrow> NonTemporal
      | Some (p, h) \<Rightarrow> Temporal h)"
  unfolding parse_temporal_query_def scan_patterns_find temporal_patterns_def ..

theorem parse_temporal_query_table_witness:
  "parse_temporal_query ''What did I ask Yesterday?'' = Temporal 24
   \<and> parse_temporal_query ''Show the LAST 2 HOURS please'' = Temporal 2
   \<and> parse_temporal_query ''anything from This Morning'' = Temporal 12
   \<and> parse_temporal_query ''How do I mine them?'' = NonTemporal"
proof -
  have l1: "str_lower ''What did I ask Yesterday?'' = ''what did i ask yesterday?''"
    by (simp add: str_lower_def lower_char_def)
  have l2: "str_lower ''Show the LAST 2 HOURS please'' = ''show the last 2 hours please''"
    by (simp add: str_lower_def lower_char_def)
  have l3: "str_lower ''anything from This Morning'' = ''anything from this morning''"
    by (simp add: str_lower_def lower_char_def)
  have l4: "str_lower ''How do I mine them?'' = ''how do i mine them?''"
    by (simp add: str_lower_def lower_char_def)
  have 1: "parse_temporal_query ''What did I ask Yesterday?'' = Temporal 24"
    using parse_temporal_query_table [of "''What did I ask Yesterday?''"]
    by (simp add: l1 str_contains_sublist [symmetric])
  have 2: "parse_temporal_query ''Show the LAST 2 HOURS please'' = Temporal 2"
    using parse_temporal_query_table [of "''Show the LAST 2 HOURS please''"]
    by (simp add: l2 str_contains_sublist [symmetric])
  have 3: "parse_temporal_query ''anything from This Morning'' = Temporal 12"
    using parse_temporal_query_table [of "''anything from This Morning''"]
    by (simp add: l3 str_contains_sublist [symmetric])
  have 4: "parse_temporal_query ''How do I mine them?'' = NonTemporal"
    using parse_temporal_query_table [of "''How do I mine them?''"]
    by (simp add: l4 str_contains_sublist [symmetric])
  from 1 2 3 4 show ?thesis by blast
qed

text \<open>
  C4. When several phrases of the table occur in one message, the window returned is
  that of the earliest one in the table's order (yesterday, last hour, past hour,
  last 2 hours, last few hours, today, last 24 hours, this morning): if a phrase
  occurs and no phrase listed before it does, its window is the result.
\<close>

theorem parse_temporal_query_first_match:
  assumes "[(''yesterday'', 24), (''last hour'', 1), (''past hour'', 1),
            (''last 2 hours'', 2), (''last few hours'', 3), (''today'', 24),
            (''last 24 hours'', 24), (''this morning'', 12)] = pre @ (p, h) # post"
    and "sublist p (str_lower m)"
    and "\<forall>q \<in> set (map fst pre). \<not> sublist q (str_lower m)"
  shows "parse_temporal_query m = Temporal h"
proof -
  have tbl: "temporal_patterns = pre @ (p, h) # post"
    using assms(1) by (simp add: temporal_patterns_def)
  have "scan_patterns (pre @ (p, h) # post) (str_lower m) = Temporal h"
    by (rule scan_patterns_first [OF assms(2) assms(3)])
  then show ?thesis
    unfolding parse_temporal_query_def tbl .
qed

theorem parse_temporal_query_first_match_witness:
  "sublist ''last hour'' (str_lower ''Was that THIS MORNING or in the Last Hour?'')
   \<and> sublist ''this morning'' (str_lower ''Was that THIS MORNING or in the Last Hour?'')
   \<and> \<not> sublist ''yesterday'' (str_lower ''Was that THIS MORNING or in the Last Hour?'')
   \<and> parse_temporal_query ''Was that THIS MORNING or in the Last Hour?'' = Temporal 1"
proof -
  have low: "str_lower ''Was that THIS MORNING or in the Last Hour?''
             = ''was that this morning or in the last hour?''"
    by (simp add: str_lower_def lower_char_def)
  have a: "sublist ''last hour'' (str_lower ''Was that THIS MORNING or in the Last Hour?'')"
    unfolding low str_contains_sublist [symmetric] by simp
  have b: "sublist ''this morning'' (str_lower ''Was that THIS MORNING or in the Last Hour?'')"
    unfolding low str_contains_sublist [symmetric] by simp
  have c: "\<not> sublist ''yesterday'' (str_lower ''Was that THIS MORNING or in the Last Hour?'')"
    unfolding low str_contains_sublist [symmetric] by simp
  have "parse_temporal_query ''Was that THIS MORNING or in the Last Hour?'' = Temporal 1"
    by (rule parse_temporal_query_first_match
          [where pre = "[(''yesterday'', 24)]" and p = "''last hour''"
             and post = "[(''past hour'', 1), (''last 2 hours'', 2), (''last few hours'', 3),
                          (''today'', 24), (''last 24 hours'', 24), (''this morning'', 12)]"])
       (use a c in simp_all)
  with a b c show ?thesis by blast
qed

text \<open>
  C5. A message whose lowercased text contains none of the table's phrases is
  classified as non-temporal, with no window.
\<close>

theorem parse_temporal_query_no_match:
  assumes "\<forall>q \<in> set [''yesterday'', ''last hour'', ''past hour'', ''last 2 hours'',
                      ''last few hours'', ''today'', ''last 24 hours'', ''this morning''].
             \<not> sublist q (str_lower m)"
  shows "parse_temporal_query m = NonTemporal"
  unfolding parse_temporal_query_def
  by (rule scan_patterns_none) (use assms in \<open>simp add: temporal_patterns_def\<close>)

theorem parse_temporal_query_no_match_witness:
  "parse_temporal_query ''How do I craft a diamond pickaxe?'' = NonTemporal"
proof -
  have low: "str_lower ''How do I craft a diamond pickaxe?''
             = ''how do i craft a diamond pickaxe?''"
    by (simp add: str_lower_def lower_char_def)
  show ?thesis
    by (rule parse_temporal_query_no_match)
       (simp add: low str_contains_sublist [symmetric])
qed

section \<open>Claims about the settings routes\<close>

text \<open>
  C1. A requested \<open>max_history\<close> below 1 or above 100 (0 and 101 among them) is
  rejected with an error, the 400 \<open>HTTPException\<close>, and the manager is left as it
  was: reading the setting afterwards returns the value it had before the call.
\<close>

theorem update_history_settings_rejects:
  assumes "v < 1 \<or> v > 100"
  shows "fst (update_history_settings v mgr)
           = Inl (HTTPException 400 ''max_history must be between 1 and 100'')
         \<and> snd (update_history_settings v mgr) = mgr
         \<and> get_history_settings (snd (update_history_settings v mgr))
           = Inr (max_history mgr, ''./vector_db'')"
  using assms by (auto simp: update_history_settings_def get_history_settings_def)

theorem update_history_settings_rejects_witness:
  "fst (update_history_settings 0 chat_history_manager)
     = Inl (HTTPException 400 ''max_history must be between 1 and 100'')
   \<and> get_history_settings (snd (update_history_settings 0 chat_history_manager))
     = Inr (30, ''./vector_db'')
   \<and> fst (update_history_settings 101 chat_history_manager)
     = Inl (HTTPException 400 ''max_history must be between 1 and 100'')
   \<and> get_history_settings (snd (update_history_settings 101 chat_history_manager))
     = Inr (30, ''./vector_db'')"
  using update_history_settings_rejects [of 0 chat_history_manager]
        update_history_settings_rejects [of 101 chat_history_manager]
  by (simp add: chat_history_manager_def get_history_settings_def)

section \<open>Claims about the listing of games\<close>

lemma str_endswith_suffix: "str_endswith s sfx \<longleftrightarrow> suffix sfx s"
  by (simp add: str_endswith_def suffix_to_prefix)

lemma collect_games_entries:
  "collect_games get_stats collections = Inr games \<Longrightarrow>
     map entry_collection_name games = filter (suffix ''_chat_history'') collections
     \<and> (\<forall>e \<in> set games.
           entry_game e = game_name_of (entry_collection_name e)
           \<and> (\<exists>st. get_stats (game_name_of (entry_collection_name e)) = Inr st
                     \<and> entry_total_messages e = stats_total_messages st))"
proof (induction collections arbitrary: games)
  case Nil
  then show ?case by simp
next
  case (Cons name collections)
  show ?case
  proof (cases "suffix ''_chat_history'' name")
    case False
    with Cons.prems have "collect_games get_stats collections = Inr games"
      by (simp add: str_endswith_suffix)
    from Cons.IH [OF this] False show ?thesis by simp
  next
    case True
    with Cons.prems obtain st rest where
      st: "get_stats (game_name_of name) = Inr st"
      and rest: "collect_games get_stats collections = Inr rest"
      and games: "games = GameEntry (game_name_of name) name (stats_total_messages st) # rest"
      by (auto simp: str_endswith_suffix split: sum.splits)
    from Cons.IH [OF rest] st games True show ?thesis by auto
  qed
qed

lemma game_name_minecraft: "game_name_of ''minecraft_chat_history'' = ''Minecraft''"
  by (simp add: game_name_of_def str_title_def lower_char_def upper_char_def is_cased_def)

lemma game_name_elden: "game_name_of ''elden_ring_chat_history'' = ''Elden Ring''"
  by (simp add: game_name_of_def str_title_def lower_char_def upper_char_def is_cased_def)

text \<open>
  C2, as stated, fails. The route lists every collection whose name ends in
  \<open>_chat_history\<close> and does not look at the count: a store with one such
  collection and no record in it gives one entry, with \<open>total_messages\<close> 0.
\<close>

theorem list_games_with_history_empty_scope_listed:
  "list_games_with_history (Inr [''minecraft_chat_history''])
     demo_get_stats_empty
   = Inr ([GameEntry ''Minecraft'' ''minecraft_chat_history'' 0], 1)"
  by (simp add: list_games_with_history_def str_endswith_def game_name_minecraft
        stats_total_messages_def demo_get_stats_empty_def)

text \<open>
  C2, amended. When the listing succeeds it has one entry for each collection of the
  store whose name ends in \<open>_chat_history\<close>, in the store's order, and
  \<open>total_games\<close> is their number; each entry carries the game name derived from
  the collection name and the \<open>total_messages\<close> that \<open>get_stats\<close> reports for
  that game (0 when the key is absent). Entries are not filtered by their count.
\<close>

theorem list_games_with_history_lists_collections:
  assumes "list_games_with_history (Inr collections) get_stats = Inr (games, total_games)"
  shows "map entry_collection_name games = filter (suffix ''_chat_history'') collections
         \<and> total_games = int (length games)
         \<and> (\<forall>e \<in> set games.
               entry_game e = game_name_of (entry_collection_name e)
               \<and> (\<exists>st. get_stats (game_name_of (entry_collection_name e)) = Inr st
                         \<and> entry_total_messages e = stats_total_messages st))"
proof -
  from assms have c: "collect_games get_stats collections = Inr games"
    and t: "total_games = int (length games)"
    by (auto simp: list_games_with_history_def split: sum.splits)
  from collect_games_entries [OF c] t show ?thesis by blast
qed

theorem list_games_with_history_lists_collections_witness:
  "list_games_with_history
     (Inr [''minecraft_chat_history'', ''screenshots'', ''elden_ring_chat_history''])
     demo_get_stats
   = Inr ([GameEntry ''Minecraft'' ''minecraft_chat_history'' 0,
           GameEntry ''Elden Ring'' ''elden_ring_chat_history'' 4], 2)
   \<and> filter (suffix ''_chat_history'')
         [''minecraft_chat_history'', ''screenshots'', ''elden_ring_chat_history'']
       = [''minecraft_chat_history'', ''elden_ring_chat_history'']"
proof -
  have run: "list_games_with_history
     (Inr [''minecraft_chat_history'', ''screenshots'', ''elden_ring_chat_history''])
     demo_get_stats
   = Inr ([GameEntry ''Minecraft'' ''minecraft_chat_history'' 0,
           GameEntry ''Elden Ring'' ''elden_ring_chat_history'' 4], 2)"
    by (simp add: list_games_with_history_def str_endswith_def game_name_minecraft
          game_name_elden stats_total_messages_def demo_get_stats_def)
  from list_games_with_history_lists_collections [OF run]
  have "filter (suffix ''_chat_history'')
          [''minecraft_chat_history'', ''screenshots'', ''elden_ring_chat_history'']
        = [''minecraft_chat_history'', ''elden_ring_chat_history'']"
    by simp
  with run show ?thesis by simp
qed

section \<open>The chat route: its two branches\<close>

lemma chat_non_temporal:
  "parse_temporal_query (message msg) = NonTemporal \<Longrightarrow>
     fst (chat env msg) = fst (chat_plain env msg (request_game msg) (message msg))
     \<and> snd (chat env msg) =
         (case snd (chat_plain env msg (request_game msg) (message msg)) of
            Inl e \<Rightarrow> Inl (HTTPException 500 (''Chat error: '' @ e))
          | Inr reply \<Rightarrow> Inr reply)"
  by (simp add: chat_def Let_def)


lemma sent_to_model_chat_call_model:
  "sent_to_model (fst (chat_call_model env game user_message enhanced img)) = [enhanced]"
  by (simp add: chat_call_model_def split: sum.splits)

lemma chat_plain_sent:
  "sent_to_model (fst (chat_plain env msg game user_message)) =
     (if request_include_history msg
      then (case get_history_context env game (request_history_limit msg) of
              Inl e \<Rightarrow> []
            | Inr history_context \<Rightarrow> [enhance_message history_context user_message])
      else [user_message])"
  by (simp add: chat_plain_def Let_def sent_to_model_chat_call_model split: sum.splits)








lemma chat_plain_game_attr:
  "chat_plain env (msg\<lparr>game_attr := g\<rparr>) game user_message
     = chat_plain env msg game user_message"
  by (auto simp: chat_plain_def request_include_history_def request_history_limit_def Let_def
        split: sum.splits)

section \<open>The chat route on the example requests\<close>

lemma demo_question_text_non_temporal:
  "parse_temporal_query ''How do I mine them?'' = NonTemporal"
  by (simp add: parse_temporal_query_def temporal_patterns_def str_lower_def lower_char_def)

lemma demo_temporal_text_temporal:
  "parse_temporal_query ''What did I ask Yesterday?'' = Temporal 24"
  by (simp add: parse_temporal_query_def temporal_patterns_def str_lower_def lower_char_def)

lemma str_int_24: "str_int 24 = ''24''"
  by (simp add: str_int_def str_nat.simps)


lemma chat_demo_question_no_game:
  "chat demo_collaborators demo_question_no_game =
     ([GetHistoryContext ''general'' 5,
       ChatWithGemini ''How do I mine them?'' None,
       AddMessage ''general'' ''How do I mine them?'' ''Use an iron pickaxe.''],
      Inr (GeminiReply (DictResponse [(''response'', ''Use an iron pickaxe.'')])))"
  by (simp add: chat_def Let_def demo_question_no_game_def demo_question_text_non_temporal
        chat_plain_def chat_call_model_def demo_collaborators_def request_game_def
        request_include_history_def request_history_limit_def enhance_message_def
        response_text_of_def)

lemma chat_demo_question_no_history:
  "chat demo_collaborators demo_question_no_history =
     ([ChatWithGemini ''How do I mine them?'' None,
       AddMessage ''minecraft'' ''How do I mine them?'' ''Use an iron pickaxe.''],
      Inr (GeminiReply (DictResponse [(''response'', ''Use an iron pickaxe.'')])))"
  by (simp add: chat_def Let_def demo_question_no_history_def demo_question_text_non_temporal
        chat_plain_def chat_call_model_def demo_collaborators_def request_game_def
        request_include_history_def request_history_limit_def enhance_message_def
        response_text_of_def)


lemma chat_demo_temporal_no_game:
  "chat demo_collaborators demo_temporal_no_game =
     ([GetRecentHistory ''general'' 24,
       AddMessage ''general'' ''What did I ask Yesterday?''
         ''I don't have any conversation history from the last 24 hours for general.''],
      Inr (TemporalReply
             ''I don't have any conversation history from the last 24 hours for general.''
             ''general''))"
  by (simp add: chat_def Let_def demo_temporal_no_game_def demo_temporal_text_temporal
        chat_temporal_def temporal_response_text_def demo_collaborators_def request_game_def
        no_history_reply_def str_int_24)

section \<open>Claims about the chat route\<close>

text \<open>
  C6. For a message that is no temporal query: with history inclusion on and a
  non-empty context summary, the one text sent to the model is the summary, then a
  separator line and \<open>Current question: \<close>, then the user's message; with an
  empty or absent summary, or with history inclusion off, the text sent is the user's
  message unchanged.
\<close>

theorem chat_message_sent_to_model:
  assumes "parse_temporal_query (message msg) = NonTemporal"
  shows "(request_include_history msg
            \<and> get_history_context env (request_game msg) (request_history_limit msg)
                = Inr (Some ctx)
            \<and> ctx \<noteq> []
          \<longrightarrow> sent_to_model (fst (chat env msg))
                = [ctx @ [CHR 0x0A, CHR 0x0A] @ ''---'' @ [CHR 0x0A, CHR 0x0A]
                     @ ''Current question: '' @ message msg])
       \<and> (request_include_history msg
            \<and> (get_history_context env (request_game msg) (request_history_limit msg)
                  = Inr None
               \<or> get_history_context env (request_game msg) (request_history_limit msg)
                  = Inr (Some []))
          \<longrightarrow> sent_to_model (fst (chat env msg)) = [message msg])
       \<and> (\<not> request_include_history msg
          \<longrightarrow> sent_to_model (fst (chat env msg)) = [message msg])"
  using chat_non_temporal [OF assms, of env]
  by (auto simp: chat_plain_sent enhance_message_def)

theorem chat_message_sent_to_model_witness:
  "sent_to_model (fst (chat demo_collaborators demo_question))
     = [''User: Where are diamonds?'' @ [CHR 0x0A, CHR 0x0A] @ ''---''
          @ [CHR 0x0A, CHR 0x0A] @ ''Current question: How do I mine them?'']
   \<and> sent_to_model (fst (chat demo_collaborators demo_question_no_game))
     = [''How do I mine them?'']
   \<and> sent_to_model (fst (chat demo_collaborators demo_question_no_history))
     = [''How do I mine them?'']"
proof -
  have a: "parse_temporal_query (message demo_question) = NonTemporal"
    by (simp add: demo_question_def demo_question_text_non_temporal)
  have b: "parse_temporal_query (message demo_question_no_game) = NonTemporal"
    by (simp add: demo_question_no_game_def demo_question_text_non_temporal)
  have c: "parse_temporal_query (message demo_question_no_history) = NonTemporal"
    by (simp add: demo_question_no_history_def demo_question_text_non_temporal)
  have 1: "sent_to_model (fst (chat demo_collaborators demo_question))
     = [''User: Where are diamonds?'' @ [CHR 0x0A, CHR 0x0A] @ ''---''
          @ [CHR 0x0A, CHR 0x0A] @ ''Current question: How do I mine them?'']"
    using chat_message_sent_to_model
            [OF a, of demo_collaborators "''User: Where are diamonds?''"]
    by (simp add: demo_question_def demo_collaborators_def request_game_def
          request_include_history_def request_history_limit_def)
  have 2: "sent_to_model (fst (chat demo_collaborators demo_question_no_game))
     = [''How do I mine them?'']"
    using chat_message_sent_to_model [OF b, of demo_collaborators "[]"]
    by (simp add: demo_question_no_game_def demo_collaborators_def request_game_def
          request_include_history_def request_history_limit_def)
  have 3: "sent_to_model (fst (chat demo_collaborators demo_question_no_history))
     = [''How do I mine them?'']"
    using chat_message_sent_to_model [OF c, of demo_collaborators "[]"]
    by (simp add: demo_question_no_history_def request_include_history_def)
  from 1 2 3 show ?thesis by blast
qed






text \<open>
  C10. A request whose message object carries no \<open>game\<close> attribute is processed
  as the same request with game \<open>general\<close>: every manager call of the request
  (history window, context summary, stored exchange) names the game \<open>general\<close>,
  and so does a temporal reply.
\<close>

theorem chat_default_game:
  assumes "game_attr msg = None"
  shows "chat env msg = chat env (msg\<lparr>game_attr := Some ''general''\<rparr>)
         \<and> (\<forall>c \<in> set (fst (chat env msg)).
               call_game c = None \<or> call_game c = Some ''general'')
         \<and> (\<forall>reply_text g. snd (chat env msg) = Inr (TemporalReply reply_text g) \<longrightarrow> g = ''general'')"
proof -
  have g: "request_game msg = ''general''"
    using assms by (simp add: request_game_def)
  have same: "chat env msg = chat env (msg\<lparr>game_attr := Some ''general''\<rparr>)"
    using assms
    by (simp add: chat_def Let_def chat_plain_game_attr request_game_def
          split: temporal_info.splits)
  have calls: "\<forall>c \<in> set (fst (chat env msg)). call_game c = None \<or> call_game c = Some ''general''"
    by (auto simp: chat_def Let_def g chat_temporal_def chat_plain_def chat_call_model_def
          split: temporal_info.splits sum.splits if_splits)
  have rep: "\<forall>reply_text g. snd (chat env msg) = Inr (TemporalReply reply_text g) \<longrightarrow> g = ''general''"
    by (auto simp: chat_def Let_def g chat_temporal_def chat_plain_def chat_call_model_def
          split: temporal_info.splits sum.splits if_splits)
  from same calls rep show ?thesis by blast
qed

theorem chat_default_game_witness:
  "chat demo_collaborators demo_question_no_game
     = chat demo_collaborators (demo_question_no_game\<lparr>game_attr := Some ''general''\<rparr>)
   \<and> map call_game (fst (chat demo_collaborators demo_question_no_game))
     = [Some ''general'', None, Some ''general'']
   \<and> chat demo_collaborators demo_temporal_no_game
     = chat demo_collaborators (demo_temporal_no_game\<lparr>game_attr := Some ''general''\<rparr>)
   \<and> map call_game (fst (chat demo_collaborators demo_temporal_no_game))
     = [Some ''general'', Some ''general'']"
proof -
  have a: "game_attr demo_question_no_game = None"
    by (simp add: demo_question_no_game_def)
  have b: "game_attr demo_temporal_no_game = None"
    by (simp add: demo_temporal_no_game_def)
  have e1: "chat demo_collaborators demo_question_no_game
     = chat demo_collaborators (demo_question_no_game\<lparr>game_attr := Some ''general''\<rparr>)"
    by (rule chat_default_game [OF a, THEN conjunct1])
  have e2: "chat demo_collaborators demo_temporal_no_game
     = chat demo_collaborators (demo_temporal_no_game\<lparr>game_attr := Some ''general''\<rparr>)"
    by (rule chat_default_game [OF b, THEN conjunct1])
  have c1: "map call_game (fst (chat demo_collaborators demo_question_no_game))
     = [Some ''general'', None, Some ''general'']"
    by (simp add: chat_demo_question_no_game)
  have c2: "map call_game (fst (chat demo_collaborators demo_temporal_no_game))
     = [Some ''general'', Some ''general'']"
    by (simp add: chat_demo_temporal_no_game)
  show ?thesis
    by (intro conjI) (rule e1, rule c1, rule e2, rule c2)
qed

end
